theory Spec2Isabelle
  imports Complex_Main
begin

section \<open>Geometry primitives of \<open>Capsule2D\<close>\<close>

text \<open>
  The program computes with IEEE double-precision numbers; throughout this development
  they are idealised as the real numbers, so every statement below is a statement about
  the formulas the code evaluates, not about their rounding.
\<close>

text \<open>\<open>np.deg2rad\<close>: degrees to radians.\<close>

definition deg2rad :: "real \<Rightarrow> real" where
  "deg2rad teta = teta * (pi / 180)"

text \<open>
  \<open>Capsule2D.circle(x0, z0, r, teta)\<close>: the angle is rebound to its value in radians,
  then the point on the circle is returned as a pair.
\<close>

definition circle :: "real \<Rightarrow> real \<Rightarrow> real \<Rightarrow> real \<Rightarrow> real \<times> real" where
  "circle x0 z0 r teta =
     (let teta' = deg2rad teta;
          x = x0 + r * cos teta';
          z = z0 + r * sin teta'
      in (x, z))"

text \<open>
  \<open>Capsule2D.splines(x0, x, teta0, R, diameter, posZmax)\<close> at one abscissa \<open>x\<close>.
  The angle \<open>teta0\<close> arrives in radians (the callers convert it). The body is the inner
  function \<open>z\<close> applied to \<open>x\<close>. Division is the division of the real numbers, made
  total by HOL; which floating-point inputs make the program's divisions fail is outside
  this idealisation.
\<close>

definition splines :: "real \<Rightarrow> real \<Rightarrow> real \<Rightarrow> real \<Rightarrow> real \<Rightarrow> real \<Rightarrow> real" where
  "splines x0 x teta0 R diameter posZmax =
     (let b = (3 / (1 * x0 ^ 2)) *
                (R * sin teta0 + x0 / (3 * tan teta0) - (posZmax / 0.4) * diameter);
          a = (1 / (3 * x0 ^ 2)) * (- 1 / tan teta0 - (2 * b * x0));
          c = 0;
          d = (posZmax / 0.4) * diameter
      in a * x ^ 3 + b * x ^ 2 + c * x + d)"

text \<open>The callers pass a NumPy array for \<open>x\<close>; the polynomial is applied elementwise.\<close>

definition splines_array :: "real \<Rightarrow> real list \<Rightarrow> real \<Rightarrow> real \<Rightarrow> real \<Rightarrow> real \<Rightarrow> real list" where
  "splines_array x0 xs teta0 R diameter posZmax =
     map (\<lambda>x. splines x0 x teta0 R diameter posZmax) xs"

section \<open>The \<open>Capsule2D\<close> object\<close>

text \<open>
  The attributes of a \<open>Capsule2D\<close> instance are set method by method. Each record below
  holds the attributes that exist once the method it is named after has run, so that a
  method can only read what an earlier one has written; the order is the one of the
  script at the end of the module: \<open>__init__\<close>, \<open>main_points\<close> (that is \<open>inlet_circle\<close>,
  then \<open>outlet_circle\<close>), \<open>inlet_spline\<close>, \<open>outlet_spline\<close>, \<open>capsule_points\<close>,
  \<open>bottom_points\<close>.
\<close>

record capsule2D_init =
  diameter :: real
  radius :: real
  Nx :: int
  Ny :: int
  Nz :: int
  expandX :: real
  expandY :: real
  expandZ :: real
  filePath :: string
  posXmax :: real
  negXmax :: real
  posYmax :: real
  negYmax :: real
  posZmax :: real
  negZmax :: real
  dteta12 :: real
  dteta2 :: real
  dteta4 :: real
  dteta45 :: real
  dteta5 :: real
  dteta56 :: real
  ex0 :: real
  ez0 :: real
  ex1 :: real
  ez1 :: real
  ex3 :: real
  ez3 :: real
  ex6 :: real
  ez6 :: real

record capsule2D_inlet_circle = capsule2D_init +
  ex12 :: real
  ez12 :: real
  ex2 :: real
  ez2 :: real

record capsule2D_outlet_circle = capsule2D_inlet_circle +
  ex4 :: real
  ez4 :: real
  ex45 :: real
  ez45 :: real
  ex5 :: real
  ez5 :: real
  ex56 :: real
  ez56 :: real

record capsule2D_inlet_spline = capsule2D_outlet_circle +
  ex23 :: "real list"
  ez23 :: "real list"

record capsule2D_outlet_spline = capsule2D_inlet_spline +
  ex34 :: "real list"
  ez34 :: "real list"

record capsule2D_capsule_points = capsule2D_outlet_spline +
  cx1 :: real
  cz1 :: real
  cx12 :: real
  cz12 :: real
  cx2 :: real
  cz2 :: real
  cx3 :: real
  cz3 :: real
  cx4 :: real
  cz4 :: real
  cx5 :: real
  cz5 :: real
  cx6 :: real
  cz6 :: real

record capsule2D = capsule2D_capsule_points +
  ex67 :: real
  ez67 :: real
  ex7 :: real
  ez7 :: real
  ex78 :: real
  ez78 :: real
  ex8 :: real
  ez8 :: real
  ex89 :: "real list"
  ez89 :: "real list"
  ex9 :: real
  ez9 :: real
  ex910 :: "real list"
  ez910 :: "real list"
  ex10 :: real
  ez10 :: real
  ex1011 :: real
  ez1011 :: real
  cx7 :: real
  cz7 :: real
  cx8 :: real
  cz8 :: real
  cx9 :: real
  cz9 :: real
  cx10 :: real
  cz10 :: real
  cx1011 :: real
  cz1011 :: real

text \<open>\<open>Capsule2D.__init__(diameter)\<close>.\<close>

definition Capsule2D :: "real \<Rightarrow> capsule2D_init" where
  "Capsule2D d =
     \<lparr> diameter = d,
       radius = d / 2,
       Nx = 41,
       Ny = 1,
       Nz = 121,
       expandX = 1 / 1000,
       expandY = 1,
       expandZ = 1,
       filePath = ''../../k-epsilon/2D_capsule_v2/capsule_from_prism/system/'',
       posXmax = 4.0,
       negXmax = - 2.0,
       posYmax = 0.1,
       negYmax = - 0.1,
       posZmax = 4.0,
       negZmax = 4.0,
       dteta12 = 170,
       dteta2 = 155,
       dteta4 = 75,
       dteta45 = 60,
       dteta5 = 45,
       dteta56 = 23,
       ex0 = 0,
       ez0 = 0,
       ex1 = - 2 / 0.4 * d,
       ez1 = 0.0,
       ex3 = 0,
       ez3 = (4.0 / 0.4) * d,
       ex6 = (4.0 / 0.4) * d,
       ez6 = 0 \<rparr>"

text \<open>
  \<open>np.linspace(start, stop, num)\<close> with the default \<open>endpoint=True\<close>: \<open>num\<close> samples
  \<open>start + i * step\<close>, the last one overwritten with \<open>stop\<close> when there is more than one.
\<close>

definition linspace :: "real \<Rightarrow> real \<Rightarrow> nat \<Rightarrow> real list" where
  "linspace start stop num =
     (let step = (stop - start) / real (num - 1);
          y = map (\<lambda>i. real i * step + start) [0..<num]
      in if 1 < num then y[num - 1 := stop] else y)"

text \<open>\<open>inlet_circle\<close>: points 12 and 2 on the circle around the trailing-edge centre.\<close>

definition inlet_circle :: "capsule2D_init \<Rightarrow> capsule2D_inlet_circle" where
  "inlet_circle self =
     (let x6 = ex6 self;
          z6 = ez6 self;
          r = (posXmax self - ex1 self) / 0.4 * diameter self;
          teta12 = dteta12 self;
          p12 = circle x6 z6 r teta12;
          teta2 = dteta2 self;
          p2 = circle x6 z6 r teta2
      in capsule2D_init.extend self
           (capsule2D_inlet_circle.fields (fst p12) (snd p12) (fst p2) (snd p2)))"

text \<open>\<open>outlet_circle\<close>: points 4, 45, 5 and 56 on the circle around the origin.\<close>

definition outlet_circle :: "capsule2D_inlet_circle \<Rightarrow> capsule2D_outlet_circle" where
  "outlet_circle self =
     (let x0 = ex0 self;
          z0 = ez0 self;
          r = posXmax self / 0.4 * diameter self;
          teta4 = dteta4 self;
          teta45 = dteta45 self;
          teta5 = dteta5 self;
          teta56 = dteta56 self;
          p4 = circle x0 z0 r teta4;
          p45 = circle x0 z0 r teta45;
          p5 = circle x0 z0 r teta5;
          p56 = circle x0 z0 r teta56
      in capsule2D_inlet_circle.extend self
           (capsule2D_outlet_circle.fields (fst p4) (snd p4) (fst p45) (snd p45)
              (fst p5) (snd p5) (fst p56) (snd p56)))"

definition main_points :: "capsule2D_init \<Rightarrow> capsule2D_outlet_circle" where
  "main_points self = outlet_circle (inlet_circle self)"

text \<open>\<open>inlet_spline\<close>: ten abscissae from point 2 to 0 and the spline heights there.\<close>

definition inlet_spline :: "capsule2D_outlet_circle \<Rightarrow> capsule2D_inlet_spline" where
  "inlet_spline self =
     (let ex23' = linspace (ex2 self) 0 10;
          x2 = ex2 self;
          teta2 = deg2rad (dteta2 self);
          R = (4 - ex1 self) / 0.4 * diameter self;
          ez23' = splines_array x2 ex23' teta2 R (diameter self) (posZmax self)
      in capsule2D_outlet_circle.extend self (capsule2D_inlet_spline.fields ex23' ez23'))"

text \<open>\<open>outlet_spline\<close>: ten abscissae from point 4 to 0 and the spline heights there.\<close>

definition outlet_spline :: "capsule2D_inlet_spline \<Rightarrow> capsule2D_outlet_spline" where
  "outlet_spline self =
     (let ex34' = linspace (ex4 self) 0 10;
          x4 = ex4 self;
          teta4 = deg2rad (dteta4 self);
          r = 4 / 0.4 * diameter self;
          ez34' = splines_array x4 ex34' teta4 r (diameter self) (posZmax self)
      in capsule2D_inlet_spline.extend self (capsule2D_outlet_spline.fields ex34' ez34'))"

text \<open>\<open>capsule_points\<close>: the body contour, scaled by \<open>diameter / 0.4\<close>.\<close>

definition capsule_points :: "capsule2D_outlet_spline \<Rightarrow> capsule2D_capsule_points" where
  "capsule_points self =
     (let ratio = diameter self / 0.4
      in capsule2D_outlet_spline.extend self
           (capsule2D_capsule_points.fields
              (- 0.120 * ratio) 0.0
              (- 0.107938 * ratio) (0.068404 * ratio)
              (- 0.080 * ratio) (0.120 * ratio)
              (- 0.040 * ratio) (0.160 * ratio)
              0.0 (diameter self / 2)
              (0.080 * ratio) (0.120 * ratio)
              (0.080 * ratio) (0.000 * ratio)))"

text \<open>
  \<open>bottom_points\<close>: every bottom-half attribute is assigned from a top-half one, the
  abscissa with a unary plus, the height with a unary minus (elementwise on the arrays).
\<close>

definition bottom_points :: "capsule2D_capsule_points \<Rightarrow> capsule2D" where
  "bottom_points self =
     capsule2D_capsule_points.extend self
       (capsule2D.fields
          (ex56 self) (- ez56 self)
          (ex5 self) (- ez5 self)
          (ex45 self) (- ez45 self)
          (ex4 self) (- ez4 self)
          (ex34 self) (map uminus (ez34 self))
          (ex3 self) (- ez3 self)
          (ex23 self) (map uminus (ez23 self))
          (ex2 self) (- ez2 self)
          (ex12 self) (- ez12 self)
          (cx5 self) (- cz5 self)
          (cx4 self) (- cz4 self)
          (cx3 self) (- cz3 self)
          (cx2 self) (- cz2 self)
          (cx12 self) (- cz12 self))"

text \<open>The object as the script has it just before the mesh is written.\<close>

definition build :: "real \<Rightarrow> capsule2D" where
  "build d =
     bottom_points (capsule_points (outlet_spline (inlet_spline (main_points (Capsule2D d)))))"


section \<open>The mesh description\<close>

subsection \<open>Python built-ins the mesh construction uses\<close>

text \<open>\<open>int(r)\<close> on a float: truncation toward zero.\<close>

definition py_int :: "real \<Rightarrow> int" where
  "py_int r = (if 0 \<le> r then \<lfloor>r\<rfloor> else \<lceil>r\<rceil>)"

text \<open>\<open>str(i)\<close> for a non-negative integer: its decimal digits.\<close>

fun str :: "nat \<Rightarrow> string" where
  "str n = (if n < 10 then [''0123456789'' ! n]
            else str (n div 10) @ [''0123456789'' ! (n mod 10)])"

declare str.simps [simp del]

subsection \<open>The records of the blockMesh helper\<close>

text \<open>
  The program imports \<open>BlockMeshDict\<close>, \<open>Vertex\<close> and \<open>SimpleGrading\<close> from the package
  \<open>ofblockmeshdicthelper\<close>, which is not part of the repository. What the program relies
  on is modelled here: a \<open>BlockMeshDict\<close> keeps its vertices, blocks, edges and boundaries
  in dictionaries keyed by the name given at insertion, and a face of a block is referred
  to by the block and one of the six direction letters.
\<close>

record vertex =
  vertex_x :: real
  vertex_y :: real
  vertex_z :: real
  vertex_name :: string

definition Vertex :: "real \<Rightarrow> real \<Rightarrow> real \<Rightarrow> string \<Rightarrow> vertex" where
  "Vertex x y z name = \<lparr> vertex_x = x, vertex_y = y, vertex_z = z, vertex_name = name \<rparr>"

record hexblock =
  block_vnames :: "string list"
  block_cells :: "int \<times> int \<times> int"
  block_name :: string
  block_grading :: "real \<times> real \<times> real"

datatype edge =
  ArcEdge "string \<times> string" string vertex
| SplineEdge "string \<times> string" string "vertex list"

record face =
  face_block :: string
  face_side :: string

record boundary =
  boundary_type :: string
  boundary_name :: string
  boundary_faces :: "face list"

record blockMeshDict =
  metric :: string
  vertices :: "(string \<times> vertex) list"
  blocks :: "(string \<times> hexblock) list"
  edges :: "(string \<times> edge) list"
  boundaries :: "(string \<times> boundary) list"

text \<open>
  A Python dictionary as an association list in insertion order: storing under a key that
  is present replaces the value in place, storing under a new key appends.
\<close>

fun dict_set :: "'k \<Rightarrow> 'v \<Rightarrow> ('k \<times> 'v) list \<Rightarrow> ('k \<times> 'v) list" where
  "dict_set k v [] = [(k, v)]"
| "dict_set k v (p # ps) = (if fst p = k then (k, v) # ps else p # dict_set k v ps)"

definition BlockMeshDict :: blockMeshDict where
  "BlockMeshDict = \<lparr> metric = ''m'', vertices = [], blocks = [], edges = [], boundaries = [] \<rparr>"

definition set_metric :: "string \<Rightarrow> blockMeshDict \<Rightarrow> blockMeshDict" where
  "set_metric m bmd = bmd\<lparr> metric := m \<rparr>"

definition add_vertex :: "real \<Rightarrow> real \<Rightarrow> real \<Rightarrow> string \<Rightarrow> blockMeshDict \<Rightarrow> blockMeshDict" where
  "add_vertex x y z name bmd =
     bmd\<lparr> vertices := dict_set name (Vertex x y z name) (vertices bmd) \<rparr>"

definition add_hexblock ::
  "string list \<Rightarrow> int \<times> int \<times> int \<Rightarrow> string \<Rightarrow> real \<times> real \<times> real \<Rightarrow> blockMeshDict
     \<Rightarrow> hexblock \<times> blockMeshDict" where
  "add_hexblock vnames cells name grading bmd =
     (let b = \<lparr> block_vnames = vnames, block_cells = cells, block_name = name,
                block_grading = grading \<rparr>
      in (b, bmd\<lparr> blocks := dict_set name b (blocks bmd) \<rparr>))"

definition add_arcedge ::
  "string \<times> string \<Rightarrow> string \<Rightarrow> vertex \<Rightarrow> blockMeshDict \<Rightarrow> blockMeshDict" where
  "add_arcedge vnames name interVertex bmd =
     bmd\<lparr> edges := dict_set name (ArcEdge vnames name interVertex) (edges bmd) \<rparr>"

definition add_splineedge ::
  "string \<times> string \<Rightarrow> string \<Rightarrow> vertex list \<Rightarrow> blockMeshDict \<Rightarrow> blockMeshDict" where
  "add_splineedge vnames name points bmd =
     bmd\<lparr> edges := dict_set name (SplineEdge vnames name points) (edges bmd) \<rparr>"

definition block_face :: "hexblock \<Rightarrow> string \<Rightarrow> face" where
  "block_face b side = \<lparr> face_block = block_name b, face_side = side \<rparr>"

definition add_boundary :: "string \<Rightarrow> string \<Rightarrow> face list \<Rightarrow> blockMeshDict \<Rightarrow> blockMeshDict" where
  "add_boundary type name faces bmd =
     bmd\<lparr> boundaries :=
            dict_set name \<lparr> boundary_type = type, boundary_name = name, boundary_faces = faces \<rparr>
              (boundaries bmd) \<rparr>"


subsection \<open>\<open>to_blockMesh_dict2\<close>\<close>

text \<open>
  The method is modelled section by section, in the order of the source: the list
  \<open>basevs\<close>, the loop that adds its vertices with coordinates rounded to four decimals,
  the ten hex blocks, the arc edges, the spline edges, the boundaries.
\<close>

definition basevs :: "capsule2D \<Rightarrow> vertex list" where
  "basevs self =
     [ Vertex (ex0 self) (posYmax self) (ez0 self) ''v0f'',
       Vertex (ex1 self) (posYmax self) (ez1 self) ''v1f'',
       Vertex (ex2 self) (posYmax self) (ez2 self) ''v2f'',
       Vertex (ex3 self) (posYmax self) (ez3 self) ''v3f'',
       Vertex (ex4 self) (posYmax self) (ez4 self) ''v4f'',
       Vertex (ex5 self) (posYmax self) (ez5 self) ''v5f'',
       Vertex (ex6 self) (posYmax self) (ez6 self) ''v6f'',
       Vertex (ex0 self) (negYmax self) (ez0 self) ''v0b'',
       Vertex (ex1 self) (negYmax self) (ez1 self) ''v1b'',
       Vertex (ex2 self) (negYmax self) (ez2 self) ''v2b'',
       Vertex (ex3 self) (negYmax self) (ez3 self) ''v3b'',
       Vertex (ex4 self) (negYmax self) (ez4 self) ''v4b'',
       Vertex (ex5 self) (negYmax self) (ez5 self) ''v5b'',
       Vertex (ex6 self) (negYmax self) (ez6 self) ''v6b'',
       Vertex (cx1 self) (posYmax self) (cz1 self) ''c1f'',
       Vertex (cx12 self) (posYmax self) (cz12 self) ''c12f'',
       Vertex (cx2 self) (posYmax self) (cz2 self) ''c2f'',
       Vertex (cx3 self) (posYmax self) (cz3 self) ''c3f'',
       Vertex (cx4 self) (posYmax self) (cz4 self) ''c4f'',
       Vertex (cx5 self) (posYmax self) (cz5 self) ''c5f'',
       Vertex (cx6 self) (posYmax self) (cz6 self) ''c6f'',
       Vertex (cx1 self) (negYmax self) (cz1 self) ''c1b'',
       Vertex (cx12 self) (negYmax self) (cz12 self) ''c12b'',
       Vertex (cx2 self) (negYmax self) (cz2 self) ''c2b'',
       Vertex (cx3 self) (negYmax self) (cz3 self) ''c3b'',
       Vertex (cx4 self) (negYmax self) (cz4 self) ''c4b'',
       Vertex (cx5 self) (negYmax self) (cz5 self) ''c5b'',
       Vertex (cx6 self) (negYmax self) (cz6 self) ''c6b'',
       Vertex (ex7 self) (posYmax self) (ez7 self) ''v7f'',
       Vertex (ex8 self) (posYmax self) (ez8 self) ''v8f'',
       Vertex (ex9 self) (posYmax self) (ez9 self) ''v9f'',
       Vertex (ex10 self) (posYmax self) (ez10 self) ''v10f'',
       Vertex (ex7 self) (negYmax self) (ez7 self) ''v7b'',
       Vertex (ex8 self) (negYmax self) (ez8 self) ''v8b'',
       Vertex (ex9 self) (negYmax self) (ez9 self) ''v9b'',
       Vertex (ex10 self) (negYmax self) (ez10 self) ''v10b'',
       Vertex (cx7 self) (posYmax self) (cz7 self) ''c7f'',
       Vertex (cx8 self) (posYmax self) (cz8 self) ''c8f'',
       Vertex (cx9 self) (posYmax self) (cz9 self) ''c9f'',
       Vertex (cx10 self) (posYmax self) (cz10 self) ''c10f'',
       Vertex (cx7 self) (negYmax self) (cz7 self) ''c7b'',
       Vertex (cx8 self) (negYmax self) (cz8 self) ''c8b'',
       Vertex (cx9 self) (negYmax self) (cz9 self) ''c9b'',
       Vertex (cx10 self) (negYmax self) (cz10 self) ''c10b'' ]"

text \<open>
  The loop over \<open>basevs\<close> stores \<open>round(v.x, 4)\<close>, \<open>round(v.y, 4)\<close> and \<open>round(v.z, 4)\<close>.
  Python's \<open>round\<close> acts on the binary double, whose digits the real number it stands for
  does not determine, so the rounding is not defined here: it is the parameter \<open>rnd\<close>,
  with \<open>rnd x n\<close> standing for \<open>round(x, n)\<close>, and every property below holds for every
  such function.
\<close>

definition add_vertices ::
  "(real \<Rightarrow> nat \<Rightarrow> real) \<Rightarrow> vertex list \<Rightarrow> blockMeshDict \<Rightarrow> blockMeshDict" where
  "add_vertices rnd vs bmd =
     fold (\<lambda>v. add_vertex (rnd (vertex_x v) 4) (rnd (vertex_y v) 4)
                  (rnd (vertex_z v) 4) (vertex_name v)) vs bmd"

definition add_hexblocks ::
  "capsule2D \<Rightarrow> blockMeshDict \<Rightarrow> hexblock list \<times> blockMeshDict" where
  "add_hexblocks self bmd =
     (let
          (b1, bmd) = add_hexblock
             [''v2f'', ''c2f'', ''c2b'', ''v2b'', ''v1f'', ''c1f'', ''c1b'', ''v1b'']
             (Nx self, Ny self, py_int (0.5 * real_of_int (Nz self) * 87.3 / 200.5))
             ''b1'' (expandX self, expandY self, expandZ self) bmd;
          (b2, bmd) = add_hexblock
             [''v3f'', ''c3f'', ''c3b'', ''v3b'', ''v2f'', ''c2f'', ''c2b'', ''v2b'']
             (Nx self, Ny self, py_int (0.5 * real_of_int (Nz self) * 56.6 / 200.5) + 2)
             ''b2'' (expandX self, expandY self, expandZ self) bmd;
          (b3, bmd) = add_hexblock
             [''v4f'', ''c4f'', ''c4b'', ''v4b'', ''v3f'', ''c3f'', ''c3b'', ''v3b'']
             (Nx self, Ny self, py_int (0.5 * real_of_int (Nz self) * 56.6 / 200.5) - 1)
             ''b3'' (expandX self, expandY self, expandZ self) bmd;
          (b4, bmd) = add_hexblock
             [''v5f'', ''c5f'', ''c5b'', ''v5b'', ''v4f'', ''c4f'', ''c4b'', ''v4b'']
             (Nx self, Ny self, py_int (0.5 * real_of_int (Nz self) * 113.1 / 233) + 4)
             ''b4'' (expandX self, expandY self, expandZ self) bmd;
          (b5, bmd) = add_hexblock
             [''v6f'', ''c6f'', ''c6b'', ''v6b'', ''v5f'', ''c5f'', ''c5b'', ''v5b'']
             (Nx self, Ny self, py_int (0.5 * real_of_int (Nz self) * 120 / 233) - 4)
             ''b5'' (expandX self, expandY self, expandZ self) bmd;
          (b6, bmd) = add_hexblock
             [''v7f'', ''c7f'', ''c7b'', ''v7b'', ''v6f'', ''c6f'', ''c6b'', ''v6b'']
             (Nx self, Ny self, py_int (0.5 * real_of_int (Nz self) * 120 / 233) - 4)
             ''b6'' (expandX self, expandY self, expandZ self) bmd;
          (b7, bmd) = add_hexblock
             [''v8f'', ''c8f'', ''c8b'', ''v8b'', ''v7f'', ''c7f'', ''c7b'', ''v7b'']
             (Nx self, Ny self, py_int (0.5 * real_of_int (Nz self) * 113.1 / 233) + 4)
             ''b7'' (expandX self, expandY self, expandZ self) bmd;
          (b8, bmd) = add_hexblock
             [''v9f'', ''c9f'', ''c9b'', ''v9b'', ''v8f'', ''c8f'', ''c8b'', ''v8b'']
             (Nx self, Ny self, py_int (0.5 * real_of_int (Nz self) * 56.6 / 200.5) - 1)
             ''b8'' (expandX self, expandY self, expandZ self) bmd;
          (b9, bmd) = add_hexblock
             [''v10f'', ''c10f'', ''c10b'', ''v10b'', ''v9f'', ''c9f'', ''c9b'', ''v9b'']
             (Nx self, Ny self, py_int (0.5 * real_of_int (Nz self) * 56.6 / 200.5) + 2)
             ''b9'' (expandX self, expandY self, expandZ self) bmd;
          (b10, bmd) = add_hexblock
             [''v1f'', ''c1f'', ''c1b'', ''v1b'', ''v10f'', ''c10f'', ''c10b'', ''v10b'']
             (Nx self, Ny self, py_int (0.5 * real_of_int (Nz self) * 87.3 / 200.5))
             ''b10'' (expandX self, expandY self, expandZ self) bmd
      in ([b1, b2, b3, b4, b5, b6, b7, b8, b9, b10], bmd))"

definition add_arcedges :: "capsule2D \<Rightarrow> blockMeshDict \<Rightarrow> blockMeshDict" where
  "add_arcedges self bmd =
     (let
          p12cf = Vertex (cx12 self) (posYmax self) (cz12 self) ''c12f'';
          bmd = add_arcedge (''c1f'', ''c2f'') ''capsuleFront12'' p12cf bmd;
          p12cb = Vertex (cx12 self) (negYmax self) (cz12 self) ''c12b'';
          bmd = add_arcedge (''c1b'', ''c2b'') ''capsuleBac12'' p12cb bmd;
          p12ef = Vertex (ex12 self) (posYmax self) (ez12 self) ''e12f'';
          bmd = add_arcedge (''v1f'', ''v2f'') ''inletFront12'' p12ef bmd;
          p12eb = Vertex (ex12 self) (negYmax self) (ez12 self) ''e12b'';
          bmd = add_arcedge (''v1b'', ''v2b'') ''inletBack12'' p12eb bmd;
          p45ef = Vertex (ex45 self) (posYmax self) (ez45 self) ''e45f'';
          bmd = add_arcedge (''v4f'', ''v5f'') ''outletFront45'' p45ef bmd;
          p45eb = Vertex (ex45 self) (negYmax self) (ez45 self) ''e45b'';
          bmd = add_arcedge (''v4b'', ''v5b'') ''outletBack45'' p45eb bmd;
          p56ef = Vertex (ex56 self) (posYmax self) (ez56 self) ''e56f'';
          bmd = add_arcedge (''v5f'', ''v6f'') ''outletFront56'' p56ef bmd;
          p56eb = Vertex (ex56 self) (negYmax self) (ez56 self) ''e56b'';
          bmd = add_arcedge (''v5b'', ''v6b'') ''outletBack56'' p56eb bmd;
          p67ef = Vertex (ex67 self) (posYmax self) (ez67 self) ''e67f'';
          bmd = add_arcedge (''v6f'', ''v7f'') ''outletFront67'' p67ef bmd;
          p67eb = Vertex (ex67 self) (negYmax self) (ez67 self) ''e67b'';
          bmd = add_arcedge (''v6b'', ''v7b'') ''outletBack67'' p67eb bmd;
          p78ef = Vertex (ex78 self) (posYmax self) (ez78 self) ''e78f'';
          bmd = add_arcedge (''v7f'', ''v8f'') ''outletFront78'' p78ef bmd;
          p78eb = Vertex (ex78 self) (negYmax self) (ez78 self) ''e78f'';
          bmd = add_arcedge (''v7b'', ''v8b'') ''outletBack78'' p78eb bmd;
          p1011ef = Vertex (ex1011 self) (posYmax self) (ez1011 self) ''e1011f'';
          bmd = add_arcedge (''v10f'', ''v1f'') ''inletFront1011'' p1011ef bmd;
          p1011eb = Vertex (ex1011 self) (negYmax self) (ez1011 self) ''e1011b'';
          bmd = add_arcedge (''v10b'', ''v1b'') ''inletBack1011'' p1011eb bmd;
          p1011cf = Vertex (cx1011 self) (posYmax self) (cz1011 self) ''c1011f'';
          bmd = add_arcedge (''c10f'', ''c1f'') ''capsuleFront1011'' p1011cf bmd;
          p1011cb = Vertex (cx1011 self) (negYmax self) (cz1011 self) ''c1011b'';
          bmd = add_arcedge (''c10b'', ''c1b'') ''capsuleBack1011'' p1011cb bmd
      in bmd)"

text \<open>
  The spline loops: one vertex per element of \<open>zip(xs, zs, range(len(xs)))\<close>, named by a
  prefix followed by the index.
\<close>

definition spline_vertices :: "real list \<Rightarrow> real list \<Rightarrow> real \<Rightarrow> string \<Rightarrow> vertex list" where
  "spline_vertices xs zs y prefix =
     map (\<lambda>(x, z, i). Vertex x y z (prefix @ str i)) (zip xs (zip zs [0..<length xs]))"

definition add_splineedges :: "capsule2D \<Rightarrow> blockMeshDict \<Rightarrow> blockMeshDict" where
  "add_splineedges self bmd =
     (let
          inletSplineF = spline_vertices (ex23 self) (ez23 self) (posYmax self) ''ifs'';
          inletSplineB = spline_vertices (ex23 self) (ez23 self) (negYmax self) ''ibs'';
          bmd = add_splineedge (''v2f'', ''v3f'') ''inletFrontSpline'' inletSplineF bmd;
          bmd = add_splineedge (''v2b'', ''v3b'') ''inletBackSpline'' inletSplineB bmd;
          outletSplineF = spline_vertices (ex34 self) (ez34 self) (posYmax self) ''ofs'';
          outletSplineB = spline_vertices (ex34 self) (ez34 self) (negYmax self) ''obs'';
          bmd = add_splineedge (''v4f'', ''v3f'') ''outletFrontSpline'' outletSplineF bmd;
          bmd = add_splineedge (''v4b'', ''v3b'') ''outletBackSpline'' outletSplineB bmd;
          outletSplineFbottom = spline_vertices (ex89 self) (ez89 self) (posYmax self) ''ofs'';
          outletSplineBbottom = spline_vertices (ex89 self) (ez89 self) (negYmax self) ''obs'';
          bmd = add_splineedge (''v8f'', ''v9f'') ''outletFrontSplineBottom'' outletSplineFbottom bmd;
          bmd = add_splineedge (''v8b'', ''v9b'') ''outletBackSplineBottom'' outletSplineBbottom bmd;
          inletSplineFb = spline_vertices (ex910 self) (ez910 self) (posYmax self) ''ifs'';
          inletSplineBb = spline_vertices (ex910 self) (ez910 self) (negYmax self) ''ibs'';
          bmd = add_splineedge (''v10f'', ''v9f'') ''inletFrontSplineb'' inletSplineFb bmd;
          bmd = add_splineedge (''v10b'', ''v9b'') ''inletBackSplineb'' inletSplineBb bmd
      in bmd)"

text \<open>The boundaries, from the blocks \<open>b1\<close> to \<open>b10\<close> in this order.\<close>

fun add_boundaries :: "hexblock list \<Rightarrow> blockMeshDict \<Rightarrow> blockMeshDict" where
  "add_boundaries [b1, b2, b3, b4, b5, b6, b7, b8, b9, b10] bmd =
     (let
          bmd = add_boundary ''patch'' ''inlet''
                  [block_face b1 ''w'', block_face b2 ''w'', block_face b3 ''w'',
                   block_face b8 ''w'', block_face b9 ''w'', block_face b10 ''w''] bmd;
          bmd = add_boundary ''patch'' ''outlet''
                  [block_face b4 ''w'', block_face b5 ''w'', block_face b6 ''w'',
                   block_face b7 ''w''] bmd;
          bmd = add_boundary ''wall'' ''wall''
                  [block_face b1 ''e'', block_face b2 ''e'', block_face b3 ''e'',
                   block_face b4 ''e'', block_face b5 ''e'', block_face b6 ''e'',
                   block_face b7 ''e'', block_face b8 ''e'', block_face b9 ''e'',
                   block_face b10 ''e''] bmd
      in bmd)"
| "add_boundaries bs bmd = bmd"

text \<open>
  The whole method, up to the mesh description it hands to the writer (formatting and
  the file itself are left out).
\<close>

definition to_blockMesh_dict2 :: "(real \<Rightarrow> nat \<Rightarrow> real) \<Rightarrow> capsule2D \<Rightarrow> blockMeshDict" where
  "to_blockMesh_dict2 rnd self =
     (let bmd = BlockMeshDict;
          bmd = set_metric ''m'' bmd;
          bmd = add_vertices rnd (basevs self) bmd;
          (bs, bmd) = add_hexblocks self bmd;
          bmd = add_arcedges self bmd;
          bmd = add_splineedges self bmd;
          bmd = add_boundaries bs bmd
      in bmd)"

text \<open>The script at the end of the module, for a given diameter.\<close>

definition main :: "(real \<Rightarrow> nat \<Rightarrow> real) \<Rightarrow> real \<Rightarrow> blockMeshDict" where
  "main rnd d = to_blockMesh_dict2 rnd (build d)"


section \<open>Reading a mesh description\<close>

text \<open>
  The functions of this section are not in the program: they read off a finished mesh
  description the quantities the properties below are about.
\<close>

fun edge_points :: "edge \<Rightarrow> vertex list" where
  "edge_points (ArcEdge vnames name interVertex) = [interVertex]"
| "edge_points (SplineEdge vnames name points) = points"

fun is_arc :: "edge \<Rightarrow> bool" where
  "is_arc (ArcEdge vnames name interVertex) = True"
| "is_arc (SplineEdge vnames name points) = False"

definition arc_edges :: "blockMeshDict \<Rightarrow> edge list" where
  "arc_edges bmd = filter is_arc (map snd (edges bmd))"

definition spline_edges :: "blockMeshDict \<Rightarrow> edge list" where
  "spline_edges bmd = filter (\<lambda>e. \<not> is_arc e) (map snd (edges bmd))"

text \<open>
  Every named point of a mesh description: the vertices of the topology, then the
  midpoints of the arc edges and the interpolation points of the spline edges.
\<close>

definition created_points :: "blockMeshDict \<Rightarrow> vertex list" where
  "created_points bmd =
     map snd (vertices bmd) @ concat (map (\<lambda>e. edge_points (snd e)) (edges bmd))"

text \<open>The faces of the boundary of a given name, each as (block name, side).\<close>

definition patch_faces :: "blockMeshDict \<Rightarrow> string \<Rightarrow> (string \<times> string) list" where
  "patch_faces bmd name =
     (case map_of (boundaries bmd) name of
        None \<Rightarrow> []
      | Some b \<Rightarrow> map (\<lambda>f. (face_block f, face_side f)) (boundary_faces b))"

text \<open>How many of the given faces belong to the block of a given name.\<close>

definition faces_of_block :: "(string \<times> string) list \<Rightarrow> string \<Rightarrow> nat" where
  "faces_of_block fs b = count_list (map fst fs) b"

text \<open>The cell count of a block along its third axis, the one that runs around the ring.\<close>

definition circumferential_cells :: "hexblock \<Rightarrow> int" where
  "circumferential_cells b = snd (snd (block_cells b))"

definition ring_cells :: "blockMeshDict \<Rightarrow> int list" where
  "ring_cells bmd = map (\<lambda>b. circumferential_cells (snd b)) (blocks bmd)"

text \<open>
  The angular span and the total span that the source writes in the cell count of the
  blocks \<open>b1\<close> to \<open>b10\<close>, and the share of \<open>0.5 * Nz\<close> they give once truncated.
\<close>

definition ring_spans :: "(real \<times> real) list" where
  "ring_spans =
     [(87.3, 200.5), (56.6, 200.5), (56.6, 200.5), (113.1, 233), (120, 233),
      (120, 233), (113.1, 233), (56.6, 200.5), (56.6, 200.5), (87.3, 200.5)]"

definition truncated_share :: "int \<Rightarrow> real \<times> real \<Rightarrow> int" where
  "truncated_share n st = py_int (0.5 * real_of_int n * fst st / snd st)"

text \<open>What each block's count adds to its truncated share.\<close>

definition ring_offsets :: "(real \<Rightarrow> nat \<Rightarrow> real) \<Rightarrow> capsule2D \<Rightarrow> int list" where
  "ring_offsets rnd self =
     map (\<lambda>(c, st). c - truncated_share (Nz self) st)
       (zip (ring_cells (to_blockMesh_dict2 rnd self)) ring_spans)"


section \<open>Properties of the geometry primitives\<close>

text \<open>
  Claim C3. The cubic fitted by \<open>splines\<close>, evaluated at \<open>x = 0\<close>, equals
  \<open>(zmax / 0.4) * dia\<close>, whatever the coefficients \<open>a\<close> and \<open>b\<close> come out as:
  for every start abscissa, angle, radius, diameter \<open>dia\<close> and far-field height \<open>zmax\<close>.
\<close>

theorem C3_splines_far_field_height:
  "splines x0 0 teta0 R dia zmax = (zmax / 0.4) * dia"
  by (simp add: splines_def Let_def)

subsection \<open>Slope of the fitted cubic at the start abscissa\<close>

lemma splines_slope_at_start:
  assumes "x0 \<noteq> 0"
  shows "((\<lambda>x. splines x0 x teta0 R dia zmax) has_real_derivative
            (- 1 / tan teta0)) (at x0)"
proof -
  define b where "b = (3 / (1 * x0 ^ 2)) *
                (R * sin teta0 + x0 / (3 * tan teta0) - (zmax / 0.4) * dia)"
  define a where "a = (1 / (3 * x0 ^ 2)) * (- 1 / tan teta0 - (2 * b * x0))"
  define d where "d = (zmax / 0.4) * dia"
  have eq: "(\<lambda>x. splines x0 x teta0 R dia zmax)
              = (\<lambda>x. a * x ^ 3 + b * x ^ 2 + 0 * x + d)"
    by (simp add: splines_def Let_def a_def b_def d_def)
  have "((\<lambda>x. a * x ^ 3 + b * x ^ 2 + 0 * x + d) has_real_derivative
           (3 * a * x0 ^ 2 + 2 * b * x0)) (at x0)"
    by (auto intro!: derivative_eq_intros simp: power2_eq_square)
  moreover have "3 * a * x0 ^ 2 + 2 * b * x0 = - 1 / tan teta0"
    using assms unfolding a_def by (simp add: field_simps)
  ultimately show ?thesis unfolding eq by simp
qed

text \<open>
  Claim C4, as stated, says the derivative of the fitted cubic at \<open>x0\<close> is
  \<open>1 / tan teta0\<close>. At \<open>x0 = 1\<close>, \<open>teta0 = pi / 4\<close> (45 degrees), \<open>R = 6\<close>,
  diameter \<open>0.4\<close> and far-field height \<open>4\<close> the derivative is \<open>- 1\<close>, while
  \<open>1 / tan (pi / 4) = 1\<close>.
\<close>

theorem C4_claimed_slope_counterexample:
  "\<not> ((\<lambda>x. splines 1 x (pi / 4) 6 0.4 4) has_real_derivative (1 / tan (pi / 4))) (at 1)"
proof
  assume h: "((\<lambda>x. splines 1 x (pi / 4) 6 0.4 4) has_real_derivative
                (1 / tan (pi / 4))) (at 1)"
  have "((\<lambda>x. splines 1 x (pi / 4) 6 0.4 4) has_real_derivative
           (- 1 / tan (pi / 4))) (at 1)"
    by (rule splines_slope_at_start) simp
  from DERIV_unique [OF h this] show False by (simp add: tan_45)
qed

text \<open>
  Claim C4, amended. For every input with \<open>x0 \<noteq> 0\<close> and \<open>tan teta0 \<noteq> 0\<close>, the derivative
  of the fitted cubic \<open>z(x) = a x\<^sup>3 + b x\<^sup>2 + c x + d\<close> at the start abscissa \<open>x0\<close> is
  \<open>- 1 / tan teta0\<close>: the slope of the tangent to a circle at polar angle \<open>teta0\<close>.
\<close>

theorem C4_splines_slope_is_minus_cotangent:
  "x0 \<noteq> 0 \<Longrightarrow> tan teta0 \<noteq> 0 \<Longrightarrow>
   ((\<lambda>x. splines x0 x teta0 R dia zmax) has_real_derivative
      (- 1 / tan teta0)) (at x0)"
  by (rule splines_slope_at_start)

theorem C4_splines_slope_is_minus_cotangent_witness:
  "(1::real) \<noteq> 0 \<and> tan (pi / 4) \<noteq> 0 \<and>
   ((\<lambda>x. splines 1 x (pi / 4) 6 0.4 4) has_real_derivative (- 1 / tan (pi / 4))) (at 1)"
  using C4_splines_slope_is_minus_cotangent [of 1 "pi / 4" 6 "0.4" 4] by (simp add: tan_45)

subsection \<open>Circle sampling\<close>

lemma circle_offsets:
  assumes "circle x0 z0 r teta = (x, z)"
  shows "x - x0 = r * cos (deg2rad teta)" and "z - z0 = r * sin (deg2rad teta)"
  using assms by (auto simp: circle_def Let_def)

lemma circle_distance:
  assumes "0 \<le> r" and "circle x0 z0 r teta = (x, z)"
  shows "sqrt ((x - x0) ^ 2 + (z - z0) ^ 2) = r"
proof -
  have "(x - x0) ^ 2 + (z - z0) ^ 2
          = r ^ 2 * ((cos (deg2rad teta)) ^ 2 + (sin (deg2rad teta)) ^ 2)"
    unfolding circle_offsets [OF assms(2)] by (simp only: power_mult_distrib distrib_left)
  also have "\<dots> = r ^ 2"
    by (simp only: sin_cos_squared_add2 mult_1_right)
  finally show ?thesis using assms(1) by simp
qed

lemma deg2rad_turns:
  "(deg2rad phi = deg2rad teta + 2 * pi * of_int k) = (phi = teta + 360 * of_int k)"
proof -
  have "deg2rad teta + 2 * pi * of_int k = deg2rad (teta + 360 * of_int k)"
    by (simp add: deg2rad_def algebra_simps)
  moreover have "(deg2rad u = deg2rad v) = (u = v)" for u v
    by (simp add: deg2rad_def)
  ultimately show ?thesis by simp
qed

lemma circle_angle:
  assumes "0 < r" and "circle x0 z0 r teta = (x, z)"
  shows "(x - x0 = r * cos (deg2rad phi) \<and> z - z0 = r * sin (deg2rad phi))
           = (\<exists>k::int. phi = teta + 360 * of_int k)"
proof -
  have "(x - x0 = r * cos (deg2rad phi) \<and> z - z0 = r * sin (deg2rad phi))
          = (sin (deg2rad phi) = sin (deg2rad teta) \<and> cos (deg2rad phi) = cos (deg2rad teta))"
    unfolding circle_offsets [OF assms(2)] using assms(1) by auto
  also have "\<dots> = (\<exists>k::int. deg2rad phi = deg2rad teta + 2 * pi * of_int k)"
    by (rule sin_cos_eq_iff)
  also have "\<dots> = (\<exists>k::int. phi = teta + 360 * of_int k)"
    by (simp only: deg2rad_turns)
  finally show ?thesis .
qed

text \<open>
  Claim C9. For every centre \<open>(x0, z0)\<close>, radius \<open>r \<ge> 0\<close> and angle \<open>teta\<close> in degrees, the
  point \<open>(x, z)\<close> returned by \<open>circle\<close> lies at distance \<open>r\<close> from the centre; and for
  \<open>r > 0\<close> the angles \<open>phi\<close> (in degrees, counter-clockwise from the positive x-axis) under
  which the point is seen from the centre are exactly those equal to \<open>teta\<close> modulo 360.
\<close>

theorem C9_circle_radius_and_angle:
  "0 \<le> r \<Longrightarrow> circle x0 z0 r teta = (x, z) \<Longrightarrow>
   sqrt ((x - x0) ^ 2 + (z - z0) ^ 2) = r \<and>
   (0 < r \<longrightarrow>
      (\<forall>phi. (x - x0 = r * cos (deg2rad phi) \<and> z - z0 = r * sin (deg2rad phi))
               = (\<exists>k::int. phi = teta + 360 * of_int k)))"
  using circle_distance circle_angle by blast

theorem C9_circle_radius_and_angle_witness:
  "(0::real) \<le> 1 \<and> circle 0 0 1 0 = (1, 0) \<and>
   sqrt ((1 - 0) ^ 2 + (0 - 0) ^ 2) = (1::real) \<and> (0::real) < 1 \<and>
   (\<forall>phi. ((1::real) - 0 = 1 * cos (deg2rad phi) \<and> (0::real) - 0 = 1 * sin (deg2rad phi))
            = (\<exists>k::int. phi = 0 + 360 * of_int k))"
  using C9_circle_radius_and_angle [of 1 0 0 0 1 0] by (simp add: circle_def deg2rad_def)

section \<open>Properties of the contour points\<close>

lemmas capsule2D_extend_defs =
  capsule2D_init.extend_def capsule2D_inlet_circle.extend_def
  capsule2D_outlet_circle.extend_def capsule2D_inlet_spline.extend_def
  capsule2D_outlet_spline.extend_def capsule2D_capsule_points.extend_def
  capsule2D_inlet_circle.fields_def capsule2D_outlet_circle.fields_def
  capsule2D_inlet_spline.fields_def capsule2D_outlet_spline.fields_def
  capsule2D_capsule_points.fields_def capsule2D.fields_def

lemma map_uminus_twice: "map uminus (map uminus zs) = (zs :: real list)"
  by (induction zs) simp_all

text \<open>
  Claim C7. Every bottom-half point that \<open>bottom_points\<close> derives has the abscissa of its
  top-half counterpart and the negated height: 67 from 56, 7 from 5, 78 from 45, 8 from 4,
  9 from 3, 10 from 2 and 1011 from 12 on the far-field ring, 7 from 5, 8 from 4, 9 from
  3, 10 from 2 and 1011 from 12 on the body, and the spline samples 89 from 34 and 910
  from 23 elementwise. Hence negating the height of a mirrored point once more gives the
  height of the top-half point back.
\<close>

theorem C7_bottom_points_mirror:
  "(let b = bottom_points self in
      (ex67 b = ex56 self \<and> ez67 b = - ez56 self \<and> - ez67 b = ez56 self) \<and>
      (ex7 b = ex5 self \<and> ez7 b = - ez5 self \<and> - ez7 b = ez5 self) \<and>
      (ex78 b = ex45 self \<and> ez78 b = - ez45 self \<and> - ez78 b = ez45 self) \<and>
      (ex8 b = ex4 self \<and> ez8 b = - ez4 self \<and> - ez8 b = ez4 self) \<and>
      (ex9 b = ex3 self \<and> ez9 b = - ez3 self \<and> - ez9 b = ez3 self) \<and>
      (ex10 b = ex2 self \<and> ez10 b = - ez2 self \<and> - ez10 b = ez2 self) \<and>
      (ex1011 b = ex12 self \<and> ez1011 b = - ez12 self \<and> - ez1011 b = ez12 self) \<and>
      (cx7 b = cx5 self \<and> cz7 b = - cz5 self \<and> - cz7 b = cz5 self) \<and>
      (cx8 b = cx4 self \<and> cz8 b = - cz4 self \<and> - cz8 b = cz4 self) \<and>
      (cx9 b = cx3 self \<and> cz9 b = - cz3 self \<and> - cz9 b = cz3 self) \<and>
      (cx10 b = cx2 self \<and> cz10 b = - cz2 self \<and> - cz10 b = cz2 self) \<and>
      (cx1011 b = cx12 self \<and> cz1011 b = - cz12 self \<and> - cz1011 b = cz12 self) \<and>
      (ex89 b = ex34 self \<and> ez89 b = map uminus (ez34 self) \<and> map uminus (ez89 b) = ez34 self) \<and>
      (ex910 b = ex23 self \<and> ez910 b = map uminus (ez23 self) \<and> map uminus (ez910 b) = ez23 self))"
  by (simp add: Let_def bottom_points_def capsule2D_extend_defs map_uminus_twice)

section \<open>Properties of the mesh description\<close>

subsection \<open>What each section of \<open>to_blockMesh_dict2\<close> leaves in place\<close>

lemma add_vertices_frame:
  "blocks (add_vertices rnd vs bmd) = blocks bmd"
  "edges (add_vertices rnd vs bmd) = edges bmd"
  "boundaries (add_vertices rnd vs bmd) = boundaries bmd"
  unfolding add_vertices_def
  by (induction vs arbitrary: bmd) (simp_all add: add_vertex_def)

lemma add_hexblocks_frame:
  "vertices (snd (add_hexblocks self bmd)) = vertices bmd"
  "edges (snd (add_hexblocks self bmd)) = edges bmd"
  "boundaries (snd (add_hexblocks self bmd)) = boundaries bmd"
  by (simp_all add: add_hexblocks_def Let_def add_hexblock_def)

lemma add_arcedges_frame:
  "blocks (add_arcedges self bmd) = blocks bmd"
  "vertices (add_arcedges self bmd) = vertices bmd"
  "boundaries (add_arcedges self bmd) = boundaries bmd"
  by (simp_all add: add_arcedges_def Let_def add_arcedge_def)

lemma add_splineedges_frame:
  "blocks (add_splineedges self bmd) = blocks bmd"
  "vertices (add_splineedges self bmd) = vertices bmd"
  "boundaries (add_splineedges self bmd) = boundaries bmd"
  by (simp_all add: add_splineedges_def Let_def add_splineedge_def)

lemma add_boundaries_frame:
  "blocks (add_boundaries bs bmd) = blocks bmd"
  "vertices (add_boundaries bs bmd) = vertices bmd"
  "edges (add_boundaries bs bmd) = edges bmd"
  by (induction bs bmd rule: add_boundaries.induct) (simp_all add: Let_def add_boundary_def)

lemmas mesh_frames = add_vertices_frame add_hexblocks_frame add_arcedges_frame
  add_splineedges_frame add_boundaries_frame

lemma vertices_to_blockMesh_dict2:
  "vertices (to_blockMesh_dict2 rnd self) = vertices (add_vertices rnd (basevs self) BlockMeshDict)"
  by (simp add: to_blockMesh_dict2_def Let_def split_def mesh_frames set_metric_def
        BlockMeshDict_def)

lemma vertex_names_to_blockMesh_dict2:
  "map fst (vertices (to_blockMesh_dict2 rnd self)) =
   [''v0f'', ''v1f'', ''v2f'', ''v3f'', ''v4f'', ''v5f'', ''v6f'',
    ''v0b'', ''v1b'', ''v2b'', ''v3b'', ''v4b'', ''v5b'', ''v6b'',
    ''c1f'', ''c12f'', ''c2f'', ''c3f'', ''c4f'', ''c5f'', ''c6f'',
    ''c1b'', ''c12b'', ''c2b'', ''c3b'', ''c4b'', ''c5b'', ''c6b'',
    ''v7f'', ''v8f'', ''v9f'', ''v10f'', ''v7b'', ''v8b'', ''v9b'', ''v10b'',
    ''c7f'', ''c8f'', ''c9f'', ''c10f'', ''c7b'', ''c8b'', ''c9b'', ''c10b'']"
  unfolding vertices_to_blockMesh_dict2
  by (simp add: basevs_def Vertex_def add_vertices_def add_vertex_def BlockMeshDict_def)

lemma blocks_to_blockMesh_dict2:
  "blocks (to_blockMesh_dict2 rnd self) = blocks (snd (add_hexblocks self BlockMeshDict))"
  apply (simp add: to_blockMesh_dict2_def Let_def split_def mesh_frames set_metric_def)
  apply (simp add: add_hexblocks_def Let_def add_hexblock_def mesh_frames BlockMeshDict_def)
  done

lemma block_names_to_blockMesh_dict2:
  "map fst (blocks (to_blockMesh_dict2 rnd self)) =
   [''b1'', ''b2'', ''b3'', ''b4'', ''b5'', ''b6'', ''b7'', ''b8'', ''b9'', ''b10'']"
  unfolding blocks_to_blockMesh_dict2
  by (simp add: add_hexblocks_def Let_def add_hexblock_def BlockMeshDict_def)

lemma edges_to_blockMesh_dict2:
  "edges (to_blockMesh_dict2 rnd self)
     = edges (add_splineedges self (add_arcedges self BlockMeshDict))"
  apply (simp add: to_blockMesh_dict2_def Let_def split_def mesh_frames set_metric_def)
  apply (simp add: add_splineedges_def add_arcedges_def Let_def add_splineedge_def
           add_arcedge_def mesh_frames)
  done

lemmas edge_defs = add_splineedges_def add_arcedges_def Let_def add_splineedge_def
  add_arcedge_def BlockMeshDict_def

lemma arc_points_to_blockMesh_dict2:
  "map edge_points (arc_edges (to_blockMesh_dict2 rnd self)) =
     [[Vertex (cx12 self) (posYmax self) (cz12 self) ''c12f''],
      [Vertex (cx12 self) (negYmax self) (cz12 self) ''c12b''],
      [Vertex (ex12 self) (posYmax self) (ez12 self) ''e12f''],
      [Vertex (ex12 self) (negYmax self) (ez12 self) ''e12b''],
      [Vertex (ex45 self) (posYmax self) (ez45 self) ''e45f''],
      [Vertex (ex45 self) (negYmax self) (ez45 self) ''e45b''],
      [Vertex (ex56 self) (posYmax self) (ez56 self) ''e56f''],
      [Vertex (ex56 self) (negYmax self) (ez56 self) ''e56b''],
      [Vertex (ex67 self) (posYmax self) (ez67 self) ''e67f''],
      [Vertex (ex67 self) (negYmax self) (ez67 self) ''e67b''],
      [Vertex (ex78 self) (posYmax self) (ez78 self) ''e78f''],
      [Vertex (ex78 self) (negYmax self) (ez78 self) ''e78f''],
      [Vertex (ex1011 self) (posYmax self) (ez1011 self) ''e1011f''],
      [Vertex (ex1011 self) (negYmax self) (ez1011 self) ''e1011b''],
      [Vertex (cx1011 self) (posYmax self) (cz1011 self) ''c1011f''],
      [Vertex (cx1011 self) (negYmax self) (cz1011 self) ''c1011b'']]"
  unfolding arc_edges_def edges_to_blockMesh_dict2 by (simp add: edge_defs)

lemma spline_points_to_blockMesh_dict2:
  "map edge_points (spline_edges (to_blockMesh_dict2 rnd self)) =
     [spline_vertices (ex23 self) (ez23 self) (posYmax self) ''ifs'',
      spline_vertices (ex23 self) (ez23 self) (negYmax self) ''ibs'',
      spline_vertices (ex34 self) (ez34 self) (posYmax self) ''ofs'',
      spline_vertices (ex34 self) (ez34 self) (negYmax self) ''obs'',
      spline_vertices (ex89 self) (ez89 self) (posYmax self) ''ofs'',
      spline_vertices (ex89 self) (ez89 self) (negYmax self) ''obs'',
      spline_vertices (ex910 self) (ez910 self) (posYmax self) ''ifs'',
      spline_vertices (ex910 self) (ez910 self) (negYmax self) ''ibs'']"
  unfolding spline_edges_def edges_to_blockMesh_dict2 by (simp add: edge_defs)

lemma boundaries_to_blockMesh_dict2:
  "boundaries (to_blockMesh_dict2 rnd self) =
     boundaries (add_boundaries (fst (add_hexblocks self BlockMeshDict)) BlockMeshDict)"
  apply (simp add: to_blockMesh_dict2_def Let_def split_def set_metric_def)
  apply (simp add: add_hexblocks_def Let_def add_hexblock_def add_boundary_def block_face_def
           mesh_frames BlockMeshDict_def)
  done

lemma length_linspace: "length (linspace a b n) = n"
  by (simp add: linspace_def Let_def)

lemma length_spline_vertices:
  "length zs = length xs \<Longrightarrow> length (spline_vertices xs zs y p) = length xs"
  by (simp add: spline_vertices_def)

lemma build_spline_lengths:
  "length (ex23 (build d)) = 10" "length (ez23 (build d)) = 10"
  "length (ex34 (build d)) = 10" "length (ez34 (build d)) = 10"
  "length (ex89 (build d)) = 10" "length (ez89 (build d)) = 10"
  "length (ex910 (build d)) = 10" "length (ez910 (build d)) = 10"
  by (simp_all add: build_def bottom_points_def capsule_points_def outlet_spline_def
        inlet_spline_def Let_def capsule2D_extend_defs length_linspace splines_array_def)

subsection \<open>How many artifacts one run produces\<close>

lemma main_counts:
  "length (vertices (main rnd d)) = 44"
  "length (blocks (main rnd d)) = 10"
  "length (arc_edges (main rnd d)) = 16"
  "length (spline_edges (main rnd d)) = 8"
  "map fst (boundaries (main rnd d)) = [''inlet'', ''outlet'', ''wall'']"
proof -
  show "length (vertices (main rnd d)) = 44"
    using arg_cong [OF vertex_names_to_blockMesh_dict2 [where self = "build d"], of length]
    by (simp add: main_def)
  show "length (blocks (main rnd d)) = 10"
    using arg_cong [OF block_names_to_blockMesh_dict2 [where self = "build d"], of length]
    by (simp add: main_def)
  show "length (arc_edges (main rnd d)) = 16"
    using arg_cong [OF arc_points_to_blockMesh_dict2 [where self = "build d"], of length]
    by (simp add: main_def)
  show "length (spline_edges (main rnd d)) = 8"
    using arg_cong [OF spline_points_to_blockMesh_dict2 [where self = "build d"], of length]
    by (simp add: main_def)
  show "map fst (boundaries (main rnd d)) = [''inlet'', ''outlet'', ''wall'']"
    unfolding main_def boundaries_to_blockMesh_dict2
    by (simp add: add_hexblocks_def Let_def add_hexblock_def add_boundary_def BlockMeshDict_def)
qed

lemma main_spline_lengths:
  "map (\<lambda>e. length (edge_points e)) (spline_edges (main rnd d)) = [10, 10, 10, 10, 10, 10, 10, 10]"
proof -
  have "map (\<lambda>e. length (edge_points e)) (spline_edges (main rnd d))
          = map length (map edge_points (spline_edges (to_blockMesh_dict2 rnd (build d))))"
    by (simp add: main_def comp_def)
  also have "\<dots> = [10, 10, 10, 10, 10, 10, 10, 10]"
    unfolding spline_points_to_blockMesh_dict2
    by (simp add: length_spline_vertices build_spline_lengths)
  finally show ?thesis .
qed

text \<open>
  Claim C5, as stated, counts exactly 12 arc edges for diameter 0.4. The run adds 16: two
  on the body nose and ten on the far-field ring, plus two on the far-field ring and two
  on the body nose of the bottom half, all under distinct names.
\<close>

theorem C5_twelve_arc_edges_counterexample:
  "\<not> (\<exists>rnd. length (arc_edges (main rnd 0.4)) = 12)"
  by (simp add: main_counts)

text \<open>
  Claim C5, amended. For diameter 0.4 the full run adds exactly 44 named vertices to the
  topology, exactly 10 hex blocks, exactly 16 arc edges, 8 spline edges of exactly 10
  interpolation points each, and exactly 3 boundaries, named inlet, outlet and wall.
\<close>

theorem C5_artifact_counts:
  "length (vertices (main rnd 0.4)) = 44 \<and>
   length (blocks (main rnd 0.4)) = 10 \<and>
   length (arc_edges (main rnd 0.4)) = 16 \<and>
   length (spline_edges (main rnd 0.4)) = 8 \<and>
   map (\<lambda>e. length (edge_points e)) (spline_edges (main rnd 0.4))
     = [10, 10, 10, 10, 10, 10, 10, 10] \<and>
   map fst (boundaries (main rnd 0.4)) = [''inlet'', ''outlet'', ''wall'']"
  by (simp only: main_counts main_spline_lengths simp_thms)

subsection \<open>Names of the created points\<close>

lemma build_Ymax: "posYmax (build d) = 0.1" "negYmax (build d) = - 0.1"
  by (simp_all add: build_def bottom_points_def capsule_points_def outlet_spline_def
        inlet_spline_def main_points_def outlet_circle_def inlet_circle_def Capsule2D_def
        Let_def capsule2D_extend_defs)

lemma arc_midpoints_created:
  "set (concat (map edge_points (arc_edges bmd))) \<subseteq> set (created_points bmd)"
  by (auto simp: created_points_def arc_edges_def)

text \<open>
  Claim C1 says that two named points created in one run and bearing the same name have
  the same coordinates. For diameter 0.4 the run creates the midpoint of the arc edge
  \<open>outletFront78\<close> and the midpoint of the arc edge \<open>outletBack78\<close> both under the name
  \<open>e78f\<close>, the first at \<open>y = 0.1\<close> and the second at \<open>y = - 0.1\<close>: the back midpoint is
  given the front name, where every other back midpoint carries the suffix \<open>b\<close>.
\<close>

theorem C1_e78f_names_two_points:
  "Vertex (ex78 (build 0.4)) 0.1 (ez78 (build 0.4)) ''e78f'' \<in> set (created_points (main rnd 0.4)) \<and>
   Vertex (ex78 (build 0.4)) (- 0.1) (ez78 (build 0.4)) ''e78f'' \<in> set (created_points (main rnd 0.4)) \<and>
   vertex_name (Vertex (ex78 (build 0.4)) 0.1 (ez78 (build 0.4)) ''e78f'')
     = vertex_name (Vertex (ex78 (build 0.4)) (- 0.1) (ez78 (build 0.4)) ''e78f'') \<and>
   vertex_y (Vertex (ex78 (build 0.4)) 0.1 (ez78 (build 0.4)) ''e78f'')
     \<noteq> vertex_y (Vertex (ex78 (build 0.4)) (- 0.1) (ez78 (build 0.4)) ''e78f'')"
proof -
  have "Vertex (ex78 (build 0.4)) (posYmax (build 0.4)) (ez78 (build 0.4)) ''e78f''
          \<in> set (concat (map edge_points (arc_edges (main rnd 0.4))))"
       "Vertex (ex78 (build 0.4)) (negYmax (build 0.4)) (ez78 (build 0.4)) ''e78f''
          \<in> set (concat (map edge_points (arc_edges (main rnd 0.4))))"
    unfolding main_def arc_points_to_blockMesh_dict2 by simp_all
  then have "Vertex (ex78 (build 0.4)) 0.1 (ez78 (build 0.4)) ''e78f''
               \<in> set (created_points (main rnd 0.4))"
            "Vertex (ex78 (build 0.4)) (- 0.1) (ez78 (build 0.4)) ''e78f''
               \<in> set (created_points (main rnd 0.4))"
    using arc_midpoints_created [of "main rnd 0.4"] by (auto simp: build_Ymax)
  then show ?thesis by (simp add: Vertex_def)
qed

subsection \<open>Boundary patches\<close>

lemma patch_faces_to_blockMesh_dict2:
  "patch_faces (to_blockMesh_dict2 rnd self) ''inlet'' =
     [(''b1'', ''w''), (''b2'', ''w''), (''b3'', ''w''), (''b8'', ''w''), (''b9'', ''w''),
      (''b10'', ''w'')]"
  "patch_faces (to_blockMesh_dict2 rnd self) ''outlet'' =
     [(''b4'', ''w''), (''b5'', ''w''), (''b6'', ''w''), (''b7'', ''w'')]"
  "patch_faces (to_blockMesh_dict2 rnd self) ''wall'' =
     [(''b1'', ''e''), (''b2'', ''e''), (''b3'', ''e''), (''b4'', ''e''), (''b5'', ''e''),
      (''b6'', ''e''), (''b7'', ''e''), (''b8'', ''e''), (''b9'', ''e''), (''b10'', ''e'')]"
  unfolding patch_faces_def boundaries_to_blockMesh_dict2
  by (simp_all add: add_hexblocks_def Let_def add_hexblock_def add_boundary_def
        block_face_def BlockMeshDict_def)

lemma corner_letters:
  "map (\<lambda>b. map hd (block_vnames (snd b))) (blocks (to_blockMesh_dict2 rnd self))
     = replicate 10 ''vccvvccv''"
  unfolding blocks_to_blockMesh_dict2
  by (simp add: add_hexblocks_def Let_def add_hexblock_def BlockMeshDict_def
        numeral_eq_Suc)

text \<open>
  Claim C8. In the boundaries that \<open>to_blockMesh_dict2\<close> builds, the inlet patch is the
  \<open>w\<close> faces of the blocks 1, 2, 3, 8, 9 and 10, the outlet patch the \<open>w\<close> faces of the
  blocks 4 to 7, and the wall patch the \<open>e\<close> face of every one of the ten blocks. So each
  block is referred to once by the wall patch, once by the inlet or the outlet patch, and
  twice in all; no block contributes its wall face only. In every block the corners 0, 3,
  4 and 7 are far-field vertices (names in \<open>v\<close>) and the corners 1, 2, 5 and 6 body
  vertices (names in \<open>c\<close>); in blockMesh's corner numbering the side \<open>w\<close> is the face on the
  former and the side \<open>e\<close> the face on the latter.
\<close>

theorem C8_boundary_patch_coverage:
  "patch_faces (to_blockMesh_dict2 rnd self) ''inlet'' =
     [(''b1'', ''w''), (''b2'', ''w''), (''b3'', ''w''), (''b8'', ''w''), (''b9'', ''w''),
      (''b10'', ''w'')] \<and>
   patch_faces (to_blockMesh_dict2 rnd self) ''outlet'' =
     [(''b4'', ''w''), (''b5'', ''w''), (''b6'', ''w''), (''b7'', ''w'')] \<and>
   patch_faces (to_blockMesh_dict2 rnd self) ''wall'' =
     [(''b1'', ''e''), (''b2'', ''e''), (''b3'', ''e''), (''b4'', ''e''), (''b5'', ''e''),
      (''b6'', ''e''), (''b7'', ''e''), (''b8'', ''e''), (''b9'', ''e''), (''b10'', ''e'')] \<and>
   map fst (boundaries (to_blockMesh_dict2 rnd self)) = [''inlet'', ''outlet'', ''wall''] \<and>
   map fst (blocks (to_blockMesh_dict2 rnd self)) =
     [''b1'', ''b2'', ''b3'', ''b4'', ''b5'', ''b6'', ''b7'', ''b8'', ''b9'', ''b10''] \<and>
   map (faces_of_block (patch_faces (to_blockMesh_dict2 rnd self) ''wall''))
       (map fst (blocks (to_blockMesh_dict2 rnd self))) = replicate 10 1 \<and>
   map (faces_of_block (patch_faces (to_blockMesh_dict2 rnd self) ''inlet'' @
                        patch_faces (to_blockMesh_dict2 rnd self) ''outlet''))
       (map fst (blocks (to_blockMesh_dict2 rnd self))) = replicate 10 1 \<and>
   map (faces_of_block (patch_faces (to_blockMesh_dict2 rnd self) ''inlet'' @
                        patch_faces (to_blockMesh_dict2 rnd self) ''outlet'' @
                        patch_faces (to_blockMesh_dict2 rnd self) ''wall''))
       (map fst (blocks (to_blockMesh_dict2 rnd self))) = replicate 10 2 \<and>
   map (\<lambda>b. map hd (block_vnames (snd b))) (blocks (to_blockMesh_dict2 rnd self))
     = replicate 10 ''vccvvccv''"
  unfolding patch_faces_to_blockMesh_dict2 block_names_to_blockMesh_dict2 corner_letters
  apply (simp add: faces_of_block_def numeral_eq_Suc)
  apply (simp add: boundaries_to_blockMesh_dict2 add_hexblocks_def Let_def add_hexblock_def add_boundary_def BlockMeshDict_def)
  done

subsection \<open>Cell counts around the ring\<close>

lemma ring_cells_to_blockMesh_dict2:
  "ring_cells (to_blockMesh_dict2 rnd self) =
    [py_int (0.5 * real_of_int (Nz self) * 87.3 / 200.5),
     py_int (0.5 * real_of_int (Nz self) * 56.6 / 200.5) + 2,
     py_int (0.5 * real_of_int (Nz self) * 56.6 / 200.5) - 1,
     py_int (0.5 * real_of_int (Nz self) * 113.1 / 233) + 4,
     py_int (0.5 * real_of_int (Nz self) * 120 / 233) - 4,
     py_int (0.5 * real_of_int (Nz self) * 120 / 233) - 4,
     py_int (0.5 * real_of_int (Nz self) * 113.1 / 233) + 4,
     py_int (0.5 * real_of_int (Nz self) * 56.6 / 200.5) - 1,
     py_int (0.5 * real_of_int (Nz self) * 56.6 / 200.5) + 2,
     py_int (0.5 * real_of_int (Nz self) * 87.3 / 200.5)]"
  unfolding ring_cells_def blocks_to_blockMesh_dict2
  by (simp add: add_hexblocks_def Let_def add_hexblock_def BlockMeshDict_def
        circumferential_cells_def)

lemma ring_offsets_eq: "ring_offsets rnd self = [0, 2, - 1, 4, - 4, - 4, 4, - 1, 2, 0]"
  unfolding ring_offsets_def ring_cells_to_blockMesh_dict2
  by (simp add: ring_spans_def truncated_share_def mult.commute)

lemma build_Nz: "Nz (build d) = 121"
  by (simp add: build_def bottom_points_def capsule_points_def outlet_spline_def
        inlet_spline_def main_points_def outlet_circle_def inlet_circle_def Capsule2D_def
        Let_def capsule2D_extend_defs)

lemma ring_cells_main: "ring_cells (main rnd d) = [26, 19, 16, 33, 27, 27, 33, 16, 19, 26]"
  unfolding main_def ring_cells_to_blockMesh_dict2 build_Nz
  by (simp add: py_int_def)

text \<open>
  Claim C6, as stated, puts every per-block offset between \<open>- 4\<close> and \<open>+ 2\<close>. The blocks
  \<open>b4\<close> and \<open>b7\<close> add \<open>+ 4\<close> to their truncated share.
\<close>

theorem C6_offsets_at_most_two_counterexample:
  "\<not> (\<exists>rnd. list_all (\<lambda>off. - 4 \<le> off \<and> off \<le> 2) (ring_offsets rnd (build 0.4)))"
  by (simp add: ring_offsets_eq)

text \<open>
  Claim C6, amended. Each of the ten blocks' circumferential cell counts is the integer
  truncation of \<open>0.5 * Nz\<close> times the block's angular fraction, plus a fixed integer
  offset; the offsets of \<open>b1\<close> to \<open>b10\<close> are 0, 2, -1, 4, -4, -4, 4, -1, 2, 0, so every
  one lies between \<open>- 4\<close> and \<open>+ 4\<close> inclusive.
\<close>

theorem C6_truncation_plus_offset:
  "ring_cells (to_blockMesh_dict2 rnd self)
     = map (\<lambda>(st, off). truncated_share (Nz self) st + off)
         (zip ring_spans (ring_offsets rnd self)) \<and>
   ring_offsets rnd self = [0, 2, - 1, 4, - 4, - 4, 4, - 1, 2, 0] \<and>
   list_all (\<lambda>off. - 4 \<le> off \<and> off \<le> 4) (ring_offsets rnd self)"
  unfolding ring_offsets_eq ring_cells_to_blockMesh_dict2
  by (simp add: ring_spans_def truncated_share_def mult.commute)

text \<open>
  Claim C2, as stated, says that for diameter 0.4 the ten circumferential cell counts add
  up to \<open>Nz = 121\<close> up to what truncation and the offsets can move. Each of the ten
  truncations loses less than one cell and each offset moves a count by its magnitude, so
  the sum can be off by at most \<open>10\<close> plus the sum of the magnitudes of the offsets; the
  sum is 242, further than that from 121.
\<close>

theorem C2_total_is_Nz_counterexample:
  "\<not> (\<exists>rnd. \<bar>sum_list (ring_cells (main rnd 0.4)) - Nz (build 0.4)\<bar>
              \<le> int (length (ring_cells (main rnd 0.4)))
                  + sum_list (map abs (ring_offsets rnd (build 0.4))))"
  by (simp add: ring_cells_main build_Nz ring_offsets_eq)

text \<open>
  Claim C2, amended. For diameter 0.4 (\<open>Nz = 121\<close>) the circumferential cell counts of
  \<open>b1\<close> to \<open>b10\<close> are 26, 19, 16, 33, 27, 27, 33, 16, 19, 26: the five blocks of the top
  half add up to \<open>Nz\<close> exactly, so do the five of the bottom half, and the ten together to
  \<open>2 * Nz = 242\<close>.
\<close>

theorem C2_ring_totals:
  "Nz (build 0.4) = 121 \<and>
   ring_cells (main rnd 0.4) = [26, 19, 16, 33, 27, 27, 33, 16, 19, 26] \<and>
   sum_list (take 5 (ring_cells (main rnd 0.4))) = Nz (build 0.4) \<and>
   sum_list (drop 5 (ring_cells (main rnd 0.4))) = Nz (build 0.4) \<and>
   sum_list (ring_cells (main rnd 0.4)) = 2 * Nz (build 0.4)"
  by (simp add: ring_cells_main build_Nz)

end
